theory Spec2Isabelle
  imports Complex_Main
begin

section \<open>Dipole detection and matching (wys\_ars.rays.dipole\_finder)\<close>

text \<open>
  The embedding follows \<^verbatim>\<open>src/wys_ars/rays/dipole_finder.py\<close>, class \<^verbatim>\<open>Dipoles\<close>.
  Numeric model: a finite float64 value is a \<open>real\<close> and the arithmetic of the model is
  exact, where float64 rounds the result of every operation. The properties proved
  below are therefore chosen to hold of the float64 program as well: they equate the code
  with the same operations in the same order, or evaluate inputs on which float64 is
  exact, or rest on the symmetry of rounding under negation, or leave room for the
  rounding (the length of \<^verbatim>\<open>np.arange\<close>); a hypothesis on a computed quantity is then a
  hypothesis on the float64 value the program computes. Python integers are \<open>int\<close>. An
  exception of the source is a value \<open>Inl e\<close> of \<open>error + 'a\<close>. Where numpy does not raise
  but produces a non-finite value (division by zero, the statistics of an empty array),
  the value is written out as an \<open>npfloat\<close>. A leading underscore of a Python name is
  dropped.
\<close>

subsection \<open>Exceptions and numpy values\<close>

datatype error =
    ZeroDivisionError
  | ValueError
  | IndexError
  | KeyError
  | TypeError
  | AssertionError string

datatype npfloat = Finite real | PosInf | NegInf | NaN

type_synonym point = "real \<times> real"

type_synonym ndarray2 = "real list list"

text \<open>
  \<^verbatim>\<open>a[indx]\<close> with a boolean array \<^verbatim>\<open>indx\<close>: the rows of \<^verbatim>\<open>a\<close> whose mask entry is
  true, in order. An empty mask selects nothing, whatever the length of \<^verbatim>\<open>a\<close>; otherwise
  numpy raises IndexError when the mask and the first axis differ in length.
\<close>

definition mask_select :: "bool list \<Rightarrow> 'a list \<Rightarrow> error + 'a list" where
  "mask_select indx a =
     (if indx = [] then Inr []
      else if length indx \<noteq> length a then Inl IndexError
      else Inr (map snd (filter fst (zip indx a))))"

subsection \<open>Edge rejection: \<^verbatim>\<open>Dipoles._remove_peaks_crossing_edge\<close>\<close>

text \<open>
  \<^verbatim>\<open>
  pixlen = opening_angle / npix  #[deg]
  bufferlen = np.ceil(kernel_width / (60 * pixlen))
  x = pos[:, 0].value * npix / opening_angle
  y = pos[:, 1].value * npix / opening_angle
  indx = np.logical_and(
      np.logical_and(x <= npix - 1 - bufferlen, x >= bufferlen),
      np.logical_and(y <= npix - 1 - bufferlen, y >= bufferlen),
  )
  sigma = sigma[indx]
  pos = pos[indx, :]
  return sigma, pos
  \<close>
  \<^verbatim>\<open>npix\<close> is a Python int, \<^verbatim>\<open>opening_angle\<close> and \<^verbatim>\<open>kernel_width\<close> are Python floats:
  both scalar divisions raise ZeroDivisionError on a zero divisor.
\<close>

definition remove_peaks_crossing_edge ::
  "int \<Rightarrow> real \<Rightarrow> real \<Rightarrow> real list \<Rightarrow> point list \<Rightarrow> error + (real list \<times> point list)" where
  "remove_peaks_crossing_edge npix opening_angle kernel_width sigma pos =
     (if npix = 0 then Inl ZeroDivisionError
      else
        let pixlen = opening_angle / of_int npix in
        if 60 * pixlen = 0 then Inl ZeroDivisionError
        else
          let bufferlen = (of_int \<lceil>kernel_width / (60 * pixlen)\<rceil> :: real);
              x = map (\<lambda>p. fst p * of_int npix / opening_angle) pos;
              y = map (\<lambda>p. snd p * of_int npix / opening_angle) pos;
              indx = map2 (\<lambda>x y.
                       (x \<le> of_int npix - 1 - bufferlen \<and> x \<ge> bufferlen) \<and>
                       (y \<le> of_int npix - 1 - bufferlen \<and> y \<ge> bufferlen)) x y
          in (case mask_select indx sigma of
                Inl e \<Rightarrow> Inl e
              | Inr sigma' \<Rightarrow>
                  (case mask_select indx pos of
                     Inl e \<Rightarrow> Inl e
                   | Inr pos' \<Rightarrow> Inr (sigma', pos'))))"

text \<open>
  The retention rule in the words of the specification: the pixel length, the buffer in
  pixels, the position in pixels and the two-sided test on both axes.
\<close>

definition pixel_len_deg :: "int \<Rightarrow> real \<Rightarrow> real" where
  "pixel_len_deg npix opening_angle_deg = opening_angle_deg / of_int npix"

definition buffer_px :: "int \<Rightarrow> real \<Rightarrow> real \<Rightarrow> int" where
  "buffer_px npix opening_angle_deg kernel_width_arcmin =
     \<lceil>kernel_width_arcmin / (60 * pixel_len_deg npix opening_angle_deg)\<rceil>"

definition to_px :: "int \<Rightarrow> real \<Rightarrow> real \<Rightarrow> real" where
  "to_px npix opening_angle_deg pos_deg = pos_deg * of_int npix / opening_angle_deg"

definition retained :: "int \<Rightarrow> real \<Rightarrow> real \<Rightarrow> point \<Rightarrow> bool" where
  "retained npix opening_angle_deg kernel_width_arcmin p =
     (let b = of_int (buffer_px npix opening_angle_deg kernel_width_arcmin) :: real;
          px = to_px npix opening_angle_deg (fst p);
          py = to_px npix opening_angle_deg (snd p)
      in (b \<le> px \<and> px \<le> of_int npix - 1 - b) \<and> (b \<le> py \<and> py \<le> of_int npix - 1 - b))"

subsection \<open>Threshold building: \<^verbatim>\<open>Dipoles._get_convergence_thresholds\<close>\<close>

text \<open>
  \<^verbatim>\<open>np.min\<close> and \<^verbatim>\<open>np.max\<close> reduce over all elements of the array and raise ValueError
  on an array without elements.
\<close>

definition np_min :: "ndarray2 \<Rightarrow> error + real" where
  "np_min a = (case concat a of [] \<Rightarrow> Inl ValueError | x # xs \<Rightarrow> Inr (fold min xs x))"

definition np_max :: "ndarray2 \<Rightarrow> error + real" where
  "np_max a = (case concat a of [] \<Rightarrow> Inl ValueError | x # xs \<Rightarrow> Inr (fold max xs x))"

text \<open>
  \<^verbatim>\<open>np.arange(start, stop, step)\<close> on floats has \<open>ceil((stop - start) / step)\<close> values,
  none when that length is not positive. numpy stores \<open>start\<close>, then
  \<open>next = start + step\<close>, and fills the rest with \<open>start + i * delta\<close> where
  \<open>delta = next - start\<close>. With a zero step the length cannot be computed and numpy
  raises. In exact arithmetic the quotient of the thresholds below is the number of
  bins; the quotient numpy computes in float64 can lie just above it, and the length is
  then one more.
\<close>

definition np_arange :: "real \<Rightarrow> real \<Rightarrow> real \<Rightarrow> error + real list" where
  "np_arange start stop step =
     (if step = 0 then Inl ValueError
      else
        let len = nat \<lceil>(stop - start) / step\<rceil>;
            next = start + step;
            delta = next - start
        in Inr (map (\<lambda>i. if i = 0 then start else if i = 1 then next
                          else start + real i * delta) [0 ..< len]))"

text \<open>
  \<^verbatim>\<open>
  bins = np.arange(
      np.min(sky_array), np.max(sky_array)*1.1,
      (np.max(sky_array)*1.1 - np.min(sky_array)) / nbins,
  )
  return bins
  \<close>
  The step is a numpy float64 divided by \<^verbatim>\<open>nbins\<close>, a Python number: the annotation
  \<^verbatim>\<open>int\<close> is not enforced, and a float divides as well. For \<^verbatim>\<open>nbins = 0\<close> numpy does not
  raise on the division: the step is infinite when the range is not zero (\<^verbatim>\<open>np.arange\<close>
  then returns the start alone) and nan when the range is zero (the length cannot be
  computed and \<^verbatim>\<open>np.arange\<close> raises).
\<close>

definition get_convergence_thresholds :: "ndarray2 \<Rightarrow> real \<Rightarrow> error + real list" where
  "get_convergence_thresholds sky_array nbins =
     (case np_min sky_array of
        Inl e \<Rightarrow> Inl e
      | Inr lo \<Rightarrow>
          (case np_max sky_array of
             Inl e \<Rightarrow> Inl e
           | Inr mx \<Rightarrow>
               let hi = mx * 1.1 in
               if nbins = 0 then (if hi - lo = 0 then Inl ValueError else Inr [lo])
               else np_arange lo hi ((hi - lo) / nbins)))"




subsection \<open>Significance: \<^verbatim>\<open>Dipoles._signal_to_noise_ratio\<close>\<close>

text \<open>
  \<^verbatim>\<open>np.std(a)\<close> with its defaults is \<open>sqrt(mean(abs(a - a.mean())**2))\<close> over all
  elements; on an array without elements it is nan (a warning, no exception). The value
  below is the exact one. The float64 value can differ from it: the computed deviation
  of a constant field need not be zero (three times 0.1 gives about 1.4e-17), and squares
  can overflow. What is proved about \<open>np_std\<close> below does not depend on that: the
  formula (the same operations in the specification's words), the value on inputs where
  float64 is exact, and the invariance under negation of the field, which float64
  shares because rounding is symmetric.
\<close>

definition np_mean :: "real list \<Rightarrow> real" where
  "np_mean xs = sum_list xs / real (length xs)"

definition np_std :: "ndarray2 \<Rightarrow> npfloat" where
  "np_std a =
     (let xs = concat a in
      if xs = [] then NaN
      else Finite (sqrt (np_mean (map (\<lambda>x. \<bar>x - np_mean xs\<bar> ^ 2) xs))))"

text \<open>
  A finite float64 divided by a numpy float64: division by zero gives a signed infinity
  or nan (a warning, no exception), nan propagates, a finite value over an infinity is
  zero.
\<close>

definition np_true_divide :: "real \<Rightarrow> npfloat \<Rightarrow> npfloat" where
  "np_true_divide a s =
     (case s of
        Finite d \<Rightarrow>
          (if d = 0 then (if 0 < a then PosInf else if a < 0 then NegInf else NaN)
           else Finite (a / d))
      | PosInf \<Rightarrow> Finite 0
      | NegInf \<Rightarrow> Finite 0
      | NaN \<Rightarrow> NaN)"

text \<open>The negation of a numpy value: the infinities swap, nan stays nan.\<close>

definition np_negative :: "npfloat \<Rightarrow> npfloat" where
  "np_negative v =
     (case v of Finite x \<Rightarrow> Finite (- x) | PosInf \<Rightarrow> NegInf | NegInf \<Rightarrow> PosInf | NaN \<Rightarrow> NaN)"

text \<open>
  \<^verbatim>\<open>
  def _signal_to_noise_ratio(cls, peak_values, map_values, sigma = None):
      _kappa_std = np.std(map_values)
      snr = peak_values / _kappa_std
      return snr
  \<close>
\<close>

definition signal_to_noise_ratio :: "real list \<Rightarrow> ndarray2 \<Rightarrow> real option \<Rightarrow> npfloat list" where
  "signal_to_noise_ratio peak_values map_values sigma =
     (let kappa_std = np_std map_values;
          snr = map (\<lambda>a. np_true_divide a kappa_std) peak_values
      in snr)"

text \<open>
  The population standard deviation in the words of the specification: the square root
  of the sum of squared deviations from the mean over \<open>N - ddof\<close>, here with
  \<open>ddof = 0\<close>.
\<close>

definition std_ddof :: "nat \<Rightarrow> real list \<Rightarrow> real" where
  "std_ddof ddof xs =
     sqrt ((\<Sum>x\<leftarrow>xs. (x - sum_list xs / real (length xs)) ^ 2) / real (length xs - ddof))"

definition population_std :: "ndarray2 \<Rightarrow> npfloat" where
  "population_std a = (if concat a = [] then NaN else Finite (std_ddof 0 (concat a)))"

definition scale :: "real \<Rightarrow> ndarray2 \<Rightarrow> ndarray2" where
  "scale k a = map (map (\<lambda>x. k * x)) a"

subsection \<open>The sky map and the filter stage: \<^verbatim>\<open>Dipoles._filter\<close>\<close>

text \<open>
  The attributes of a \<^verbatim>\<open>SkyMap\<close> that \<^verbatim>\<open>Dipoles\<close> reads: the named variants
  \<^verbatim>\<open>skymap.data\<close> (a dict from variant name to 2D array), \<^verbatim>\<open>skymap.npix\<close>,
  \<^verbatim>\<open>skymap.opening_angle\<close> and \<^verbatim>\<open>skymap.map_file\<close>.
\<close>

record skymap =
  data :: "string \<rightharpoonup> ndarray2"
  npix :: int
  opening_angle :: real
  map_file :: string

text \<open>
  A filter description is a Python dict (ordered by insertion) from the filter's name
  to a dict of its arguments; both are association lists here.
\<close>

datatype pyval = PyStr string | PyFloat real | PyInt int

type_synonym kwargs = "(string \<times> pyval) list"

type_synonym filter_dsc = "(string \<times> kwargs) list"

text \<open>
  The kernels live in \<^verbatim>\<open>wys_ars.rays.utils.filters\<close>, which is not among the sources; the
  application of the kernel named \<open>name\<close> with arguments \<open>args\<close> to an array is the
  parameter \<open>apply_kernel name args\<close> of everything below.
\<close>

type_synonym kernel = "string \<Rightarrow> kwargs \<Rightarrow> ndarray2 \<Rightarrow> ndarray2"

text \<open>
  Modelled from the spec: \<^verbatim>\<open>SkyMap.convolution\<close> (module \<^verbatim>\<open>wys_ars.rays.skymap\<close> is not
  among the sources). The specification describes it as the operation that "applies a
  named 2D kernel to a 2D array and returns a new array", consumed as
  \<^verbatim>\<open>apply_named_filter(config, source_variant_name) -> new_array\<close> where \<^verbatim>\<open>config\<close>
  enumerates the kernels with their scale and direction, and the filter stage as
  applying the kernels of one description one after the other, each to the result of the
  one before. The source array is the variant named \<^verbatim>\<open>on\<close>, or \<^verbatim>\<open>sky_array\<close> when that is
  given; with \<^verbatim>\<open>rtn=True\<close> the result is returned and no variant is stored.
\<close>

definition convolution ::
  "kernel \<Rightarrow> skymap \<Rightarrow> filter_dsc \<Rightarrow> string option \<Rightarrow> ndarray2 option \<Rightarrow> error + ndarray2" where
  "convolution apply_kernel skymap filter_dsc on sky_array =
     (case sky_array of
        Some a \<Rightarrow> Inr (fold (\<lambda>(name, args) m. apply_kernel name args m) filter_dsc a)
      | None \<Rightarrow>
          (case on of
             None \<Rightarrow> Inl KeyError
           | Some v \<Rightarrow>
               (case data skymap v of
                  None \<Rightarrow> Inl KeyError
                | Some a \<Rightarrow> Inr (fold (\<lambda>(name, args) m. apply_kernel name args m) filter_dsc a))))"

definition np_abs :: "ndarray2 \<Rightarrow> ndarray2" where
  "np_abs a = map (map abs) a"

text \<open>
  \<^verbatim>\<open>
  filter_dsc = {
      "gaussian_high_pass": {"abbrev": "ghpf", "theta_i": kernel_width},
      "gaussian_third_derivative": {
          "abbrev": "g3df", "theta_i": kernel_width, "direction": direction},
  }
  _map = skymap.convolution(filter_dsc, on="orig", rtn=True)
  filter_dsc = {
      "gaussian_low_pass": {"abbrev": "glpf", "theta_i": kernel_width},
  }
  skymap.data["orig_ghpf_g3df_glpf"] = skymap.convolution(
      filter_dsc, sky_array=np.abs(_map), rtn=True,
  )
  return skymap
  \<close>
  The sky map is mutated in place; the model returns the updated map.
\<close>

definition filter_dipole :: "kernel \<Rightarrow> skymap \<Rightarrow> real \<Rightarrow> int \<Rightarrow> error + skymap" where
  "filter_dipole apply_kernel skymap kernel_width direction =
     (let filter_dsc =
            [(''gaussian_high_pass'',
                [(''abbrev'', PyStr ''ghpf''), (''theta_i'', PyFloat kernel_width)]),
             (''gaussian_third_derivative'',
                [(''abbrev'', PyStr ''g3df''), (''theta_i'', PyFloat kernel_width),
                 (''direction'', PyInt direction)])]
      in (case convolution apply_kernel skymap filter_dsc (Some ''orig'') None of
            Inl e \<Rightarrow> Inl e
          | Inr m \<Rightarrow>
              let filter_dsc =
                    [(''gaussian_low_pass'',
                        [(''abbrev'', PyStr ''glpf''), (''theta_i'', PyFloat kernel_width)])]
              in (case convolution apply_kernel skymap filter_dsc None (Some (np_abs m)) of
                    Inl e \<Rightarrow> Inl e
                  | Inr r \<Rightarrow>
                      Inr (skymap\<lparr>data := (data skymap)(''orig_ghpf_g3df_glpf'' \<mapsto> r)\<rparr>))))"

text \<open>
  The three kernels of the specification's filter stage, as the applications of
  \<open>apply_kernel\<close> they are: scale \<open>kernel_width_arcmin\<close>, and the direction for the third
  derivative.
\<close>

definition gaussian_high_pass :: "kernel \<Rightarrow> real \<Rightarrow> ndarray2 \<Rightarrow> ndarray2" where
  "gaussian_high_pass apply_kernel kernel_width_arcmin =
     apply_kernel ''gaussian_high_pass''
       [(''abbrev'', PyStr ''ghpf''), (''theta_i'', PyFloat kernel_width_arcmin)]"

definition gaussian_third_derivative :: "kernel \<Rightarrow> real \<Rightarrow> int \<Rightarrow> ndarray2 \<Rightarrow> ndarray2" where
  "gaussian_third_derivative apply_kernel kernel_width_arcmin direction =
     apply_kernel ''gaussian_third_derivative''
       [(''abbrev'', PyStr ''g3df''), (''theta_i'', PyFloat kernel_width_arcmin),
        (''direction'', PyInt direction)]"

definition gaussian_low_pass :: "kernel \<Rightarrow> real \<Rightarrow> ndarray2 \<Rightarrow> ndarray2" where
  "gaussian_low_pass apply_kernel kernel_width_arcmin =
     apply_kernel ''gaussian_low_pass''
       [(''abbrev'', PyStr ''glpf''), (''theta_i'', PyFloat kernel_width_arcmin)]"

subsection \<open>The peak table\<close>

text \<open>
  A pandas DataFrame with the columns \<^verbatim>\<open>x_deg\<close> and \<^verbatim>\<open>y_deg\<close> is a \<open>frame\<close>; all columns
  of a DataFrame have the same length. The table of \<^verbatim>\<open>Dipoles.data\<close> has the further
  columns and the \<^verbatim>\<open>attrs\<close> entries that \<^verbatim>\<open>from_sky\<close> writes, and the two columns that
  \<^verbatim>\<open>find_nearest\<close> adds (absent before). A \<^verbatim>\<open>Dipoles\<close> object holds nothing but its
  \<^verbatim>\<open>data\<close>, so it is modelled by that table.
\<close>

record frame =
  x_deg :: "real list"
  y_deg :: "real list"

record peak_frame = frame +
  deltaT :: "real list"
  snr :: "npfloat list"
  x_pix :: "int list"
  y_pix :: "int list"
  attrs_map_file :: string
  attrs_filters :: bool
  attrs_kernel_width :: real
  index_dipole :: "nat list option"
  distances :: "real list option"

subsection \<open>The pipeline: \<^verbatim>\<open>Dipoles.from_sky\<close>\<close>

text \<open>\<^verbatim>\<open>np.rint\<close> rounds to the nearest integer, halves to the even one.\<close>

definition rint :: "real \<Rightarrow> int" where
  "rint x =
     (let f = \<lfloor>x\<rfloor>; r = x - of_int f
      in if r < 1 / 2 then f else if 1 / 2 < r then f + 1 else if even f then f else f + 1)"

text \<open>
  \<^verbatim>\<open>ConvergenceMap(data, angle).locatePeaks(thresholds)\<close> belongs to the external
  library lenstools; it is the parameter \<open>locatePeaks data angle thresholds\<close>, returning
  the peak amplitudes and the peak positions in degrees.
\<close>

type_synonym locator = "ndarray2 \<Rightarrow> real \<Rightarrow> real list \<Rightarrow> real list \<times> point list"

text \<open>
  Lines 66 to 78 of \<^verbatim>\<open>from_sky\<close>, up to the construction of the \<^verbatim>\<open>ConvergenceMap\<close>:
  \<^verbatim>\<open>
  if filters is True:
      skymap = cls._filter(skymap, kernel_width, direction)
  print("----------------", skymap.data[bin_dsc["on"]].shape)
  thresholds = cls._get_convergence_thresholds(
      sky_array=skymap.data[bin_dsc["on"]], nbins=bin_dsc["nbins"],
  )
  _map = ConvergenceMap(data=skymap.data[on], angle=skymap.opening_angle*un.deg)
  \<close>
  \<^verbatim>\<open>bin_dsc\<close> is a dict; a missing key raises KeyError. \<^verbatim>\<open>bin_dsc["nbins"]\<close> only
  divides the range, so an int and a float both go through, and a string raises
  TypeError at that division, after the minimum and the maximum have been taken.
\<close>

definition from_sky_map ::
  "kernel \<Rightarrow> skymap \<Rightarrow> string \<Rightarrow> (string \<rightharpoonup> pyval) \<Rightarrow> real \<Rightarrow> int \<Rightarrow> bool
     \<Rightarrow> error + (skymap \<times> real list \<times> ndarray2)" where
  "from_sky_map apply_kernel skymap on bin_dsc kernel_width direction filters =
     (case (if filters then filter_dipole apply_kernel skymap kernel_width direction else Inr skymap) of
        Inl e \<Rightarrow> Inl e
      | Inr skymap' \<Rightarrow>
          (case bin_dsc ''on'' of
             None \<Rightarrow> Inl KeyError
           | Some (PyFloat _) \<Rightarrow> Inl KeyError
           | Some (PyInt _) \<Rightarrow> Inl KeyError
           | Some (PyStr bin_on) \<Rightarrow>
               (case data skymap' bin_on of
                  None \<Rightarrow> Inl KeyError
                | Some sky_array \<Rightarrow>
                    (case (case bin_dsc ''nbins'' of
                             None \<Rightarrow> Inl KeyError
                           | Some (PyStr _) \<Rightarrow>
                               (case np_min sky_array of
                                  Inl e \<Rightarrow> Inl e
                                | Inr _ \<Rightarrow> Inl TypeError)
                           | Some (PyFloat nbins) \<Rightarrow>
                               get_convergence_thresholds sky_array nbins
                           | Some (PyInt nbins) \<Rightarrow>
                               get_convergence_thresholds sky_array (of_int nbins)) of
                       Inl e \<Rightarrow> Inl e
                     | Inr thresholds \<Rightarrow>
                         (case data skymap' on of
                            None \<Rightarrow> Inl KeyError
                          | Some map_data \<Rightarrow> Inr (skymap', thresholds, map_data))))))"

text \<open>
  Lines 80 to 103 of \<^verbatim>\<open>from_sky\<close>, from the located peaks \<^verbatim>\<open>deltaT, pos_deg\<close> on:
  \<^verbatim>\<open>
  deltaT, pos_deg = cls._remove_peaks_crossing_edge(
      skymap.npix, skymap.opening_angle, kernel_width, deltaT, pos_deg
  )
  assert len(deltaT) != 0, "No peaks"
  peak_dir = {"deltaT": deltaT, "x_deg": pos_deg[:, 0], "y_deg": pos_deg[:, 1]}
  peak_dir["snr"] = cls._signal_to_noise_ratio(peak_dir["deltaT"], _map.data)
  peak_dir["x_pix"] = np.rint(
      peak_dir["x_deg"] * skymap.npix / skymap.opening_angle).astype(int)
  peak_dir["y_pix"] = np.rint(
      peak_dir["y_deg"] * skymap.npix / skymap.opening_angle).astype(int)
  peak_df = pd.DataFrame(data=peak_dir)
  peak_df.attrs['map_file'] = skymap.map_file
  peak_df.attrs['filters'] = filters
  peak_df.attrs['kernel_width'] = kernel_width
  return cls(peak_df)
  \<close>
  Assertions are enabled (Python's default).
\<close>

definition from_sky_peaks ::
  "skymap \<Rightarrow> ndarray2 \<Rightarrow> real \<Rightarrow> bool \<Rightarrow> real list \<times> point list \<Rightarrow> error + peak_frame" where
  "from_sky_peaks skymap map_data kernel_width filters located =
     (case remove_peaks_crossing_edge (npix skymap) (opening_angle skymap) kernel_width
             (fst located) (snd located) of
        Inl e \<Rightarrow> Inl e
      | Inr (dT, pos_deg) \<Rightarrow>
          if \<not> (length dT \<noteq> 0) then Inl (AssertionError ''No peaks'')
          else
            Inr \<lparr> x_deg = map fst pos_deg,
                  y_deg = map snd pos_deg,
                  deltaT = dT,
                  snr = signal_to_noise_ratio dT map_data None,
                  x_pix = map (\<lambda>x. rint (x * of_int (npix skymap) / opening_angle skymap))
                            (map fst pos_deg),
                  y_pix = map (\<lambda>y. rint (y * of_int (npix skymap) / opening_angle skymap))
                            (map snd pos_deg),
                  attrs_map_file = map_file skymap,
                  attrs_filters = filters,
                  attrs_kernel_width = kernel_width,
                  index_dipole = None,
                  distances = None \<rparr>)"

definition from_sky ::
  "kernel \<Rightarrow> locator \<Rightarrow> skymap \<Rightarrow> string \<Rightarrow> (string \<rightharpoonup> pyval) \<Rightarrow> real \<Rightarrow> int \<Rightarrow> bool
     \<Rightarrow> error + peak_frame" where
  "from_sky apply_kernel locatePeaks skymap on bin_dsc kernel_width direction filters =
     (case from_sky_map apply_kernel skymap on bin_dsc kernel_width direction filters of
        Inl e \<Rightarrow> Inl e
      | Inr (skymap', thresholds, map_data) \<Rightarrow>
          from_sky_peaks skymap' map_data kernel_width filters
            (locatePeaks map_data (opening_angle skymap') thresholds))"

subsection \<open>Catalog matching: \<^verbatim>\<open>Dipoles.find_nearest\<close>\<close>

text \<open>
  \<^verbatim>\<open>NearestNeighbors(n_neighbors=1).fit(X).kneighbors(Q)\<close> of scikit-learn: for each
  row of \<open>Q\<close> the Euclidean distance to, and the index of, the nearest row of the
  fitted \<open>X\<close>. Both \<^verbatim>\<open>fit\<close> and \<^verbatim>\<open>kneighbors\<close> raise ValueError on an array without rows.
  Among equally near rows the model takes the first.
\<close>

definition euclidean :: "point \<Rightarrow> point \<Rightarrow> real" where
  "euclidean p q = sqrt ((fst p - fst q) ^ 2 + (snd p - snd q) ^ 2)"

definition nearest_index :: "point list \<Rightarrow> point \<Rightarrow> nat" where
  "nearest_index X q = arg_min_list (\<lambda>i. euclidean (X ! i) q) [0 ..< length X]"

definition kneighbors :: "point list \<Rightarrow> point list \<Rightarrow> error + (real list \<times> nat list)" where
  "kneighbors X Q =
     (if X = [] \<or> Q = [] then Inl ValueError
      else Inr (map (\<lambda>q. euclidean (X ! nearest_index X q) q) Q, map (nearest_index X) Q))"

text \<open>
  \<^verbatim>\<open>
  def find_nearest(self, df2: pd.DataFrame) -> pd.DataFrame:
      nbrs = NearestNeighbors(
          n_neighbors=1, algorithm='ball_tree'
      ).fit(self.data[["x_deg", "y_deg"]].values)
      distances, indices = nbrs.kneighbors(df2[["x_deg", "y_deg"]].values)
      distances=distances.T[0]; indices=indices.T[0]
      self.data["index_dipole"] = indices
      self.data["distances"] = distances
  \<close>
  Assigning a column whose length is not the number of rows of the table raises
  ValueError. The method mutates \<^verbatim>\<open>self.data\<close> and returns nothing; the model returns the
  updated table.
\<close>

definition find_nearest :: "peak_frame \<Rightarrow> 'a frame_scheme \<Rightarrow> error + peak_frame" where
  "find_nearest self df2 =
     (case kneighbors (zip (x_deg self) (y_deg self)) (zip (x_deg df2) (y_deg df2)) of
        Inl e \<Rightarrow> Inl e
      | Inr (dists, indices) \<Rightarrow>
          if length indices \<noteq> length (x_deg self) then Inl ValueError
          else if length dists \<noteq> length (x_deg self) then Inl ValueError
          else Inr (self\<lparr>index_dipole := Some indices, distances := Some dists\<rparr>))"

text \<open>
  The matcher in the words of the specification: for each peak the index of, and the
  distance to, the nearest catalog record; an error on a catalog without records.
\<close>

definition match_nearest :: "point list \<Rightarrow> point list \<Rightarrow> error + (nat list \<times> real list)" where
  "match_nearest peaks catalog =
     (if catalog = [] then Inl ValueError
      else Inr (map (nearest_index catalog) peaks,
                map (\<lambda>p. euclidean (catalog ! nearest_index catalog p) p) peaks))"

section \<open>Verified properties\<close>

subsection \<open>Auxiliary facts\<close>

lemma select_zip:
  "length xs = length ps \<Longrightarrow>
   map snd (filter fst (zip (map f ps) xs)) = map fst (filter (f \<circ> snd) (zip xs ps))"
  by (induction xs ps rule: list_induct2) auto

lemma select_self: "map snd (filter fst (zip (map f ps) ps)) = filter f ps"
  by (induction ps) auto

lemma mask_select_map:
  "length xs = length ps \<Longrightarrow>
   mask_select (map f ps) xs = Inr (map fst (filter (f \<circ> snd) (zip xs ps)))"
  by (cases "ps = []") (simp_all add: mask_select_def select_zip)

lemma mask_select_self: "mask_select (map f ps) ps = Inr (filter f ps)"
  by (cases "ps = []") (simp_all add: mask_select_def select_self)

lemma np_min_Min: "concat a \<noteq> [] \<Longrightarrow> np_min a = Inr (Min (set (concat a)))"
proof (cases "concat a")
  case Nil
  assume "concat a \<noteq> []"
  with Nil show ?thesis by simp
next
  case (Cons x xs)
  then show ?thesis
    unfolding np_min_def using Min.set_eq_fold [of x xs] by simp
qed

lemma np_max_Max: "concat a \<noteq> [] \<Longrightarrow> np_max a = Inr (Max (set (concat a)))"
proof (cases "concat a")
  case Nil
  assume "concat a \<noteq> []"
  with Nil show ?thesis by simp
next
  case (Cons x xs)
  then show ?thesis
    unfolding np_max_def using Max.set_eq_fold [of x xs] by simp
qed





lemma sum_list_negate: "sum_list (map uminus xs) = - sum_list (xs :: real list)"
  by (induction xs) simp_all

lemma np_mean_negate: "np_mean (map uminus xs) = - np_mean xs"
  by (simp add: np_mean_def sum_list_negate)

lemma concat_scale: "concat (scale k a) = map (\<lambda>x. k * x) (concat a)"
  by (simp add: scale_def map_concat)

lemma sq_dev_negate:
  "map (\<lambda>x. \<bar>x - np_mean (map uminus xs)\<bar> ^ 2) (map uminus xs)
     = map (\<lambda>x. \<bar>x - np_mean xs\<bar> ^ 2) xs"
proof -
  have "\<bar>- x - - m\<bar> ^ 2 = \<bar>x - m\<bar> ^ 2" for x m :: real
  proof -
    have "- x - - m = - (x - m)" by simp
    then show ?thesis by (simp only: abs_minus_cancel)
  qed
  then show ?thesis
    unfolding map_map comp_def np_mean_negate by (simp only:)
qed

lemma np_std_negate: "np_std (scale (- 1) a) = np_std a"
proof -
  have xs: "concat (scale (- 1) a) = map uminus (concat a)"
    by (simp add: concat_scale)
  show ?thesis
    unfolding np_std_def Let_def xs sq_dev_negate by simp
qed

lemma np_true_divide_negate:
  "np_true_divide (- a) s = np_negative (np_true_divide a s)"
  by (cases s) (simp_all add: np_true_divide_def np_negative_def)

lemma np_std_population: "np_std a = population_std a"
  by (simp add: np_std_def population_std_def std_ddof_def np_mean_def Let_def)

lemma edge_empty_amplitudes:
  "remove_peaks_crossing_edge n angle width [] pos = Inr (s, p) \<Longrightarrow> s = []"
  by (auto simp: remove_peaks_crossing_edge_def mask_select_def Let_def
      split: if_splits sum.splits)

lemma edge_empty:
  "n \<noteq> 0 \<Longrightarrow> angle \<noteq> 0 \<Longrightarrow> remove_peaks_crossing_edge n angle width [] [] = Inr ([], [])"
  by (simp add: remove_peaks_crossing_edge_def mask_select_def)

lemma from_sky_peaks_empty:
  assumes "fst located = []"
  shows "\<exists>e. from_sky_peaks sk md width filters located = Inl e"
proof (cases "remove_peaks_crossing_edge (npix sk) (opening_angle sk) width
                (fst located) (snd located)")
  case (Inl e)
  then show ?thesis by (simp add: from_sky_peaks_def)
next
  case (Inr r)
  obtain s p where r: "r = (s, p)" by (cases r)
  with Inr assms have "s = []" using edge_empty_amplitudes by metis
  with Inr r show ?thesis by (simp add: from_sky_peaks_def)
qed

subsection \<open>Edge rejection\<close>

text \<open>
  C2. With \<open>pixel_len_deg = opening_angle_deg / npix\<close>,
  \<open>buffer_px = ceil(kernel_width_arcmin / (60 * pixel_len_deg))\<close> and each position
  converted to pixels as \<open>pos_deg * npix / opening_angle_deg\<close>, the edge rejector keeps
  exactly the peaks with \<open>buffer_px \<le> px \<le> npix - 1 - buffer_px\<close> on both axes
  (predicate \<open>retained\<close>), amplitudes and positions alike and in their order, and
  discards all others. The resolution and the opening angle are not zero, and there are
  as many amplitudes as positions.
\<close>

theorem edge_rejection_iff:
  assumes "n \<noteq> 0" "angle \<noteq> 0" "length sigma = length pos"
  shows "remove_peaks_crossing_edge n angle width sigma pos =
     Inr (map fst (filter (retained n angle width \<circ> snd) (zip sigma pos)),
          filter (retained n angle width) pos)"
proof -
  let ?b = "of_int \<lceil>width / (60 * (angle / of_int n))\<rceil> :: real"
  let ?indx = "map2 (\<lambda>x y.
      (x \<le> of_int n - 1 - ?b \<and> x \<ge> ?b) \<and> (y \<le> of_int n - 1 - ?b \<and> y \<ge> ?b))
     (map (\<lambda>p. fst p * of_int n / angle) pos)
     (map (\<lambda>p. snd p * of_int n / angle) pos)"
  have indx: "?indx = map (retained n angle width) pos"
    by (induction pos) (auto simp: retained_def buffer_px_def to_px_def pixel_len_deg_def Let_def)
  have "remove_peaks_crossing_edge n angle width sigma pos =
     (case mask_select ?indx sigma of
        Inl e \<Rightarrow> Inl e
      | Inr sigma' \<Rightarrow>
          (case mask_select ?indx pos of Inl e \<Rightarrow> Inl e | Inr pos' \<Rightarrow> Inr (sigma', pos')))"
    unfolding remove_peaks_crossing_edge_def Let_def using assms(1,2) by simp
  also have "\<dots> = Inr (map fst (filter (retained n angle width \<circ> snd) (zip sigma pos)),
          filter (retained n angle width) pos)"
    unfolding indx using assms(3) by (simp add: mask_select_map mask_select_self)
  finally show ?thesis .
qed

text \<open>
  An instance: on a map of 100 pixels over 20 degrees with a 5 arcmin kernel, of the
  peaks at the pixels (2, 50), (50, 50) and (0, 50) the first two are kept.
\<close>

theorem edge_rejection_iff_witness:
  "(100 :: int) \<noteq> 0 \<and> (20 :: real) \<noteq> 0 \<and> length [7, 8, 9 :: real] = length [(2 / 5, 10), (10, 10), (0, 10 :: real)]
   \<and> remove_peaks_crossing_edge 100 20 5 [7, 8, 9] [(2 / 5, 10), (10, 10), (0, 10)]
       = Inr ([7, 8], [(2 / 5, 10), (10, 10)])"
proof -
  have h1: "(100 :: int) \<noteq> 0" and h2: "(20 :: real) \<noteq> 0"
    and h3: "length [7, 8, 9 :: real] = length [(2 / 5, 10), (10, 10), (0, 10 :: real)]"
    by simp_all
  show ?thesis
    using edge_rejection_iff [OF h1 h2 h3, of 5]
    by (simp add: retained_def buffer_px_def to_px_def pixel_len_deg_def)
qed

text \<open>
  C6, as the claim states it, fails: with \<open>npix = 100\<close>, \<open>opening_angle_deg = 20\<close> and
  \<open>kernel_width_arcmin = 5\<close> the peak at the pixel (2, 50), that is at
  (2 * 20 / 100, 50 * 20 / 100) degrees, is not rejected.
\<close>

theorem edge_pixel_two_counterexample:
  "remove_peaks_crossing_edge 100 20 5 [1] [(2 * 20 / 100, 50 * 20 / 100)] \<noteq> Inr ([], [])"
  by (simp add: remove_peaks_crossing_edge_def mask_select_def)

text \<open>
  C6, amended. With \<open>npix = 100\<close>, \<open>opening_angle_deg = 20\<close> and
  \<open>kernel_width_arcmin = 5\<close> the buffer is \<open>ceil(5 / (60 * 0.2)) = 1\<close> pixel. The peaks
  at the pixels (2, 50) and (50, 50) are both retained; a peak at exactly \<open>buffer_px = 1\<close>
  from the edge, at the pixel (1, 50), is kept and one at \<open>buffer_px - 1 = 0\<close>, at the
  pixel (0, 50), is rejected. A pixel \<open>(i, j)\<close> is the position
  \<open>(i * 20 / 100, j * 20 / 100)\<close> in degrees.
\<close>

theorem edge_rejection_instance:
  "buffer_px 100 20 5 = 1
   \<and> remove_peaks_crossing_edge 100 20 5 [a] [(2 * 20 / 100, 50 * 20 / 100)]
       = Inr ([a], [(2 * 20 / 100, 50 * 20 / 100)])
   \<and> remove_peaks_crossing_edge 100 20 5 [a] [(50 * 20 / 100, 50 * 20 / 100)]
       = Inr ([a], [(50 * 20 / 100, 50 * 20 / 100)])
   \<and> remove_peaks_crossing_edge 100 20 5 [a] [(1 * 20 / 100, 50 * 20 / 100)]
       = Inr ([a], [(1 * 20 / 100, 50 * 20 / 100)])
   \<and> remove_peaks_crossing_edge 100 20 5 [a] [(0 * 20 / 100, 50 * 20 / 100)]
       = Inr ([], [])"
  by (simp add: buffer_px_def pixel_len_deg_def remove_peaks_crossing_edge_def mask_select_def)

subsection \<open>Threshold building\<close>




text \<open>
  C8. For every field where \<open>1.1 * max(field)\<close> equals \<open>min(field)\<close>, threshold building
  fails, whatever the number of bins: no threshold sequence is returned. The zero range
  makes the step of \<^verbatim>\<open>np.arange\<close> zero (or nan for \<open>nbins = 0\<close>), and the exception of
  \<^verbatim>\<open>np.arange\<close> is the degenerate-range error of the specification.
\<close>

theorem degenerate_thresholds_fail:
  assumes "concat field \<noteq> []"
    and "1.1 * Max (set (concat field)) = Min (set (concat field))"
  shows "get_convergence_thresholds field nbins = Inl ValueError"
  using assms
  by (simp add: get_convergence_thresholds_def np_min_Min np_max_Max np_arange_def Let_def)

text \<open>An instance: the constant field \<open>[[0, 0]]\<close> with three bins.\<close>

theorem degenerate_thresholds_fail_witness:
  "concat [[0, 0 :: real]] \<noteq> []
   \<and> 1.1 * Max (set (concat [[0, 0 :: real]])) = Min (set (concat [[0, 0]]))
   \<and> get_convergence_thresholds [[0, 0]] 3 = Inl ValueError"
  using degenerate_thresholds_fail [of "[[0, 0]]" 3] by simp

subsection \<open>Significance\<close>

text \<open>
  C7, as the claim states it, fails for a negative constant: the standard deviation of
  the scaled field is \<open>\<bar>k\<bar>\<close> times the original one, so with \<open>k = -1\<close> the amplitude 1
  over the field \<open>[[0, 2]]\<close> scores 1, and the scaled amplitude over the scaled field
  scores -1.
\<close>

theorem snr_scale_negative_counterexample:
  "signal_to_noise_ratio (map (\<lambda>a. (- 1) * a) [1]) (scale (- 1) [[0, 2]]) None
     \<noteq> signal_to_noise_ratio [1] [[0, 2]] None"
  by (simp add: signal_to_noise_ratio_def np_std_def np_true_divide_def np_mean_def scale_def)

text \<open>
  C7, amended. The scores are invariant under scaling only up to sign and rounding. For
  every amplitude sequence and every reference field, scoring the amplitudes scaled by
  \<open>k = -1\<close> against the reference field scaled by \<open>k = -1\<close> yields the SNR values of the
  unscaled inputs negated (the infinities swap, nan stays nan), so the scores are not
  invariant under a negative constant. Each SNR is the amplitude divided by the
  population standard deviation of the reference field, and the output has the length
  of the amplitude input. For the other constants the scaled and the unscaled scores
  agree only up to the rounding of float64, and nothing is stated.
\<close>

theorem snr_scale_negation:
  "signal_to_noise_ratio (map (\<lambda>a. (- 1) * a) peak_values) (scale (- 1) map_values) sigma
     = map np_negative (signal_to_noise_ratio peak_values map_values sigma)
   \<and> signal_to_noise_ratio peak_values map_values sigma
     = map (\<lambda>a. np_true_divide a (population_std map_values)) peak_values
   \<and> length (signal_to_noise_ratio peak_values map_values sigma) = length peak_values"
  by (simp add: signal_to_noise_ratio_def np_std_negate np_true_divide_negate comp_def
      np_std_population [symmetric])

text \<open>
  C9, as the claim states it, fails: over the constant field \<open>[[1, 1]]\<close> the scorer
  raises nothing and returns an infinite score for the amplitude 1.
\<close>

theorem snr_constant_field_counterexample:
  "signal_to_noise_ratio [1] [[1, 1]] None = [PosInf]"
  by (simp add: signal_to_noise_ratio_def np_std_def np_true_divide_def np_mean_def)

text \<open>
  C9, amended. For every amplitude sequence, if the population standard deviation
  computed for the reference field is zero (as it is for the constant field \<open>[[1, 1]]\<close>),
  the significance scorer raises no error: it returns a sequence of the length of the
  amplitude input that holds, for each amplitude, the non-finite result of the division
  by zero, that is plus infinity for a positive amplitude, minus infinity for a negative
  one and nan for zero.
\<close>

theorem snr_zero_deviation:
  assumes "np_std map_values = Finite 0"
  shows "signal_to_noise_ratio peak_values map_values sigma
           = map (\<lambda>a. if 0 < a then PosInf else if a < 0 then NegInf else NaN) peak_values
         \<and> length (signal_to_noise_ratio peak_values map_values sigma) = length peak_values"
  using assms by (simp add: signal_to_noise_ratio_def np_true_divide_def)

text \<open>An instance: the amplitudes 1, -1 and 0 over the constant field \<open>[[1, 1]]\<close>.\<close>

theorem snr_zero_deviation_witness:
  "np_std [[1, 1]] = Finite 0
   \<and> signal_to_noise_ratio [1, - 1, 0] [[1, 1]] None = [PosInf, NegInf, NaN]"
proof -
  have h: "np_std [[1, 1]] = Finite 0"
    by (simp add: np_std_def np_mean_def)
  show ?thesis
    using h snr_zero_deviation [OF h, of "[1, - 1, 0]" None] by simp
qed

text \<open>
  C10. The optional argument \<open>sigma\<close> of the scorer has no effect: whatever is supplied
  for it, the result is the one obtained when it is omitted, namely each amplitude divided
  by the population standard deviation (\<open>ddof = 0\<close>) of the reference field.
\<close>

theorem snr_ignores_sigma:
  "signal_to_noise_ratio peak_values map_values sigma
     = signal_to_noise_ratio peak_values map_values None
   \<and> signal_to_noise_ratio peak_values map_values sigma
     = map (\<lambda>a. np_true_divide a (population_std map_values)) peak_values"
  by (simp add: signal_to_noise_ratio_def np_std_population)

subsection \<open>The filter stage\<close>

text \<open>
  C4. On a sky map that has the variant \<^verbatim>\<open>orig\<close>, the filter stage applies, in this order,
  the Gaussian high-pass kernel of scale \<open>kernel_width\<close>, the Gaussian third-derivative
  kernel of the same scale along \<open>direction\<close> to the high-pass result, the elementwise
  absolute value, and the Gaussian low-pass kernel of the same scale to the
  absolute-valued result. The low-pass result is stored as the variant
  \<^verbatim>\<open>orig_ghpf_g3df_glpf\<close>; nothing else of the sky map changes and no intermediate result
  is stored.
\<close>

theorem filter_composition:
  assumes "data skymap ''orig'' = Some a"
  shows "filter_dipole apply_kernel skymap kernel_width direction =
    Inr (skymap\<lparr>data := (data skymap)(''orig_ghpf_g3df_glpf'' \<mapsto>
      gaussian_low_pass apply_kernel kernel_width
        (np_abs (gaussian_third_derivative apply_kernel kernel_width direction
          (gaussian_high_pass apply_kernel kernel_width a))))\<rparr>)"
  using assms
  by (simp add: filter_dipole_def convolution_def gaussian_low_pass_def
      gaussian_third_derivative_def gaussian_high_pass_def)

text \<open>
  An instance with kernels that do not commute: the high pass subtracts 2, the third
  derivative multiplies by 3, the low pass adds 1. The row \<open>[1, 4]\<close> becomes \<open>[4, 7]\<close>,
  which is \<open>\<bar>3 * (x - 2)\<bar> + 1\<close>.
\<close>

theorem filter_composition_witness:
  "data \<lparr>data = [''orig'' \<mapsto> [[1, 4]]], npix = 2, opening_angle = 1, map_file = ''f''\<rparr> ''orig''
     = Some [[1, 4]]
   \<and> filter_dipole
       (\<lambda>name args m. if name = ''gaussian_low_pass'' then map (map (\<lambda>x. x + 1)) m
                       else if name = ''gaussian_high_pass'' then map (map (\<lambda>x. x - 2)) m
                       else map (map (\<lambda>x. 3 * x)) m)
       \<lparr>data = [''orig'' \<mapsto> [[1, 4]]], npix = 2, opening_angle = 1, map_file = ''f''\<rparr> 5 1
     = Inr \<lparr>data = [''orig'' \<mapsto> [[1, 4]], ''orig_ghpf_g3df_glpf'' \<mapsto> [[4, 7]]],
            npix = 2, opening_angle = 1, map_file = ''f''\<rparr>"
proof -
  have h: "data \<lparr>data = [''orig'' \<mapsto> [[1, 4 :: real]]], npix = 2, opening_angle = 1,
                  map_file = ''f''\<rparr> ''orig'' = Some [[1, 4]]"
    by simp
  show ?thesis
    unfolding filter_composition [OF h]
    by (simp add: gaussian_low_pass_def gaussian_third_derivative_def gaussian_high_pass_def
        np_abs_def)
qed

subsection \<open>The pipeline\<close>

text \<open>
  C5. Whenever the pipeline reaches peak location and peak location yields an empty
  amplitude sequence, \<^verbatim>\<open>from_sky\<close> fails: it returns no peak table, empty or partial.
  When moreover the located positions are empty and the resolution and the opening
  angle of the map are not zero, so that edge rejection itself raises nothing, the
  failure is the assertion \<^verbatim>\<open>No peaks\<close>, the no-peaks error of the specification.
\<close>

theorem no_peaks_fatal:
  assumes "from_sky_map apply_kernel skymap on bin_dsc kernel_width direction filters
             = Inr (sk, thr, md)"
    and "fst (locatePeaks md (opening_angle sk) thr) = []"
  shows "(\<exists>e. from_sky apply_kernel locatePeaks skymap on bin_dsc kernel_width direction filters
                = Inl e)
       \<and> (npix sk \<noteq> 0 \<and> opening_angle sk \<noteq> 0
            \<and> snd (locatePeaks md (opening_angle sk) thr) = []
          \<longrightarrow> from_sky apply_kernel locatePeaks skymap on bin_dsc kernel_width direction filters
                = Inl (AssertionError ''No peaks''))"
proof -
  let ?run = "from_sky apply_kernel locatePeaks skymap on bin_dsc kernel_width direction filters"
  have eq: "?run = from_sky_peaks sk md kernel_width filters
                     (locatePeaks md (opening_angle sk) thr)"
    using assms(1) by (simp add: from_sky_def)
  have a: "\<exists>e. ?run = Inl e"
    unfolding eq using assms(2) by (rule from_sky_peaks_empty)
  have b: "?run = Inl (AssertionError ''No peaks'')"
    if "npix sk \<noteq> 0" "opening_angle sk \<noteq> 0" "snd (locatePeaks md (opening_angle sk) thr) = []"
    unfolding eq using that assms(2) by (simp add: from_sky_peaks_def edge_empty)
  from a b show ?thesis by blast
qed

text \<open>
  An instance: an unfiltered map of 2 pixels over 1 degree with the variant \<^verbatim>\<open>orig\<close>, one
  bin, and a locator that finds nothing.
\<close>

theorem no_peaks_fatal_witness:
  "from_sky_map (\<lambda>name args m. m)
      \<lparr>data = [''orig'' \<mapsto> [[0, 1]]], npix = 2, opening_angle = 1, map_file = ''f''\<rparr>
      ''orig'' [''on'' \<mapsto> PyStr ''orig'', ''nbins'' \<mapsto> PyInt 1] 5 1 False
    = Inr (\<lparr>data = [''orig'' \<mapsto> [[0, 1]]], npix = 2, opening_angle = 1, map_file = ''f''\<rparr>,
           [0], [[0, 1]])
   \<and> from_sky (\<lambda>name args m. m) (\<lambda>m angle t. ([], []))
      \<lparr>data = [''orig'' \<mapsto> [[0, 1]]], npix = 2, opening_angle = 1, map_file = ''f''\<rparr>
      ''orig'' [''on'' \<mapsto> PyStr ''orig'', ''nbins'' \<mapsto> PyInt 1] 5 1 False
    = Inl (AssertionError ''No peaks'')"
proof -
  let ?sk = "\<lparr>data = [''orig'' \<mapsto> [[0, 1 :: real]]], npix = 2, opening_angle = 1,
               map_file = ''f''\<rparr>"
  have h1: "from_sky_map (\<lambda>name args m. m) ?sk ''orig''
              [''on'' \<mapsto> PyStr ''orig'', ''nbins'' \<mapsto> PyInt 1] 5 1 False
            = Inr (?sk, [0], [[0, 1]])"
    by (simp add: from_sky_map_def get_convergence_thresholds_def np_min_def np_max_def
        np_arange_def)
  have h2: "fst ((\<lambda>m angle t. ([] :: real list, [] :: point list))
                   [[0, 1]] (opening_angle ?sk) [0]) = []"
    by simp
  show ?thesis
    using h1 no_peaks_fatal [OF h1, of "\<lambda>m angle t. ([], [])", OF h2] by simp
qed

subsection \<open>Catalog matching\<close>

text \<open>
  C1 at a failing input: the peaks at (0, 0) and (10, 0), the catalog records at (9, 0)
  and (10, 0). The specification's matcher gives each peak its nearest catalog record:
  the indices 0 and 1 at the distances 9 and 0. \<^verbatim>\<open>find_nearest\<close> fits the index on the
  peaks and queries it with the catalog, so it stores in the peak table, for each catalog
  record, the nearest peak: the indices 1 and 1 at the distances 1 and 0. With the one
  catalog record (9, 0) the column to store has one entry for two rows, and the
  assignment raises.
\<close>

theorem find_nearest_queries_catalog_against_peaks:
  "find_nearest
     \<lparr>x_deg = [0, 10], y_deg = [0, 0], deltaT = [1, 1], snr = [Finite 1, Finite 1],
      x_pix = [0, 50], y_pix = [0, 0], attrs_map_file = ''f'', attrs_filters = True,
      attrs_kernel_width = 5, index_dipole = None, distances = None\<rparr>
     \<lparr>x_deg = [9, 10], y_deg = [0, 0]\<rparr>
   = Inr \<lparr>x_deg = [0, 10], y_deg = [0, 0], deltaT = [1, 1], snr = [Finite 1, Finite 1],
      x_pix = [0, 50], y_pix = [0, 0], attrs_map_file = ''f'', attrs_filters = True,
      attrs_kernel_width = 5, index_dipole = Some [1, 1], distances = Some [1, 0]\<rparr>
   \<and> match_nearest [(0, 0), (10, 0)] [(9, 0), (10, 0)] = Inr ([0, 1], [9, 0])
   \<and> find_nearest
     \<lparr>x_deg = [0, 10], y_deg = [0, 0], deltaT = [1, 1], snr = [Finite 1, Finite 1],
      x_pix = [0, 50], y_pix = [0, 0], attrs_map_file = ''f'', attrs_filters = True,
      attrs_kernel_width = 5, index_dipole = None, distances = None\<rparr>
     \<lparr>x_deg = [9], y_deg = [0]\<rparr>
   = Inl ValueError"
  by (simp add: find_nearest_def kneighbors_def match_nearest_def nearest_index_def
      euclidean_def upt_rec)

end
